theory Spec2Isabelle
  imports Main "HOL-Library.Word"
begin

section \<open>Daily video upload: a model of upload\_today\_to\_youtube.py\<close>

text \<open>
  The program reads its configuration from the environment, asks an object store for
  today's video file(s), saves each one to a scratch file and submits it to the video
  platform. The model passes the observable world (standard output, scratch files, the
  requests sent out) through every function, and returns a raised exception as the
  left summand of the result.
\<close>

subsection \<open>Python strings and integers\<close>

text \<open>
  Strings are lists of characters. \<open>str.lower\<close> is modelled on the ASCII letters;
  every other character is left as it is. (In Python the only characters outside ASCII
  whose lower case contains an ASCII letter are U+212A and U+0130, giving \<open>k\<close> and
  \<open>i\<close>.)
\<close>

definition lower_char :: "char \<Rightarrow> char" where
  "lower_char c =
     (let n = (of_char c :: nat) in if 65 \<le> n \<and> n \<le> 90 then char_of (n + 32) else c)"

definition lower :: "string \<Rightarrow> string" where
  "lower s = map lower_char s"

text \<open>\<open>s.rstrip(chars)\<close>, \<open>s.lstrip(chars)\<close> and \<open>s.strip(chars)\<close>.\<close>

definition rstrip :: "string \<Rightarrow> string \<Rightarrow> string" where
  "rstrip chars s = rev (dropWhile (\<lambda>c. c \<in> set chars) (rev s))"

definition lstrip :: "string \<Rightarrow> string \<Rightarrow> string" where
  "lstrip chars s = dropWhile (\<lambda>c. c \<in> set chars) s"

definition strip :: "string \<Rightarrow> string \<Rightarrow> string" where
  "strip chars s = lstrip chars (rstrip chars s)"

text \<open>\<open>str(n)\<close> for an integer: decimal digits, a minus sign for a negative number.\<close>

definition digit_char :: "nat \<Rightarrow> char" where
  "digit_char d = char_of (48 + d)"

fun str_nat :: "nat \<Rightarrow> string" where
  "str_nat n = (if n < 10 then [digit_char n] else str_nat (n div 10) @ [digit_char (n mod 10)])"

declare str_nat.simps [simp del]

definition str_int :: "int \<Rightarrow> string" where
  "str_int i = (if i < 0 then CHR ''-'' # str_nat (nat (- i)) else str_nat (nat i))"

text \<open>
  \<open>int(s)\<close> on a string, in base 10. A character is a code point below 256. The
  white space dropped at both ends is the interpreter's ASCII white space (space, tab,
  line feed, vertical tab, form feed, carriage return) and, of the characters from 127
  on, those that are Unicode white space, 0x85 and 0xA0, which the interpreter turns
  into spaces before it parses; the separators 0x1C to 0x1F are not dropped. One sign
  may come first, then digits, where single underscores may stand between two digits.
  A literal of more than 4300 digits is refused (the interpreter's default limit on the
  conversion, in CPython 3.11 and the security releases before it). \<open>None\<close> is the
  \<open>ValueError\<close>.
\<close>

definition whitespace :: string where
  "whitespace = [CHR 0x20, CHR 0x09, CHR 0x0A, CHR 0x0B, CHR 0x0C, CHR 0x0D,
                 CHR 0x85, CHR 0xA0]"

definition max_str_digits :: nat where
  "max_str_digits = 4300"

definition is_digit :: "char \<Rightarrow> bool" where
  "is_digit c = (let n = (of_char c :: nat) in 48 \<le> n \<and> n \<le> 57)"

definition digit_val :: "char \<Rightarrow> nat" where
  "digit_val c = of_char c - 48"

fun digits_acc :: "nat \<Rightarrow> string \<Rightarrow> nat option" where
  "digits_acc a [] = Some a"
| "digits_acc a [c] = (if is_digit c then Some (10 * a + digit_val c) else None)"
| "digits_acc a (c # d # cs) =
     (if is_digit c then digits_acc (10 * a + digit_val c) (d # cs)
      else if c = CHR ''_'' \<and> is_digit d then digits_acc (10 * a + digit_val d) cs
      else None)"

definition digits_value :: "string \<Rightarrow> nat option" where
  "digits_value s =
     (case s of [] \<Rightarrow> None
      | c # cs \<Rightarrow> if is_digit c then digits_acc (digit_val c) cs else None)"

definition py_int :: "string \<Rightarrow> int option" where
  "py_int s =
     (let t = strip whitespace s in
      if max_str_digits < length (filter is_digit t) then None
      else
        case t of
          [] \<Rightarrow> None
        | c # cs \<Rightarrow>
            if c = CHR ''-'' then map_option (\<lambda>n. - int n) (digits_value cs)
            else if c = CHR ''+'' then map_option int (digits_value cs)
            else map_option int (digits_value (c # cs)))"

subsection \<open>Exceptions\<close>

text \<open>
  Every exception the program meets is an instance of \<open>Exception\<close>. \<open>KeyError\<close> comes
  from \<open>os.environ[...]\<close>, \<open>HTTPError\<close> from \<open>raise_for_status\<close>,
  \<open>FileNotFoundError\<close> from \<open>open\<close>; \<open>Raised\<close> is any other exception that a library
  call raises (a transport error, a rejected API request), with its message.
\<close>

datatype exn = KeyError string | HTTPError string | FileNotFoundError string | Raised string

text \<open>\<open>str(e)\<close>, as the f-string of the handler formats it.\<close>

fun exn_str :: "exn \<Rightarrow> string" where
  "exn_str (KeyError k) = [CHR 0x27] @ k @ [CHR 0x27]"
| "exn_str (HTTPError m) = m"
| "exn_str (FileNotFoundError p) =
     ''[Errno 2] No such file or directory: '' @ [CHR 0x27] @ p @ [CHR 0x27]"
| "exn_str (Raised m) = m"

subsection \<open>The world outside the program\<close>

type_synonym bytes = "8 word list"

text \<open>What \<open>requests.get(url, stream=True)\<close> hands back.\<close>

record response =
  status_code :: int
  reason :: string
  url :: string
  iter_content :: "bytes list"

text \<open>The metadata document \<open>body\<close> of \<open>upload_one_video\<close>.\<close>

record body =
  snippet_title :: string
  snippet_description :: string
  snippet_categoryId :: string
  status_privacyStatus :: string
  status_selfDeclaredMadeForKids :: bool
  contentDetails_hasCustomThumbnail :: "bool option"

text \<open>
  The remote services: the object store answers a GET with a response or the call raises;
  the platform answers an executed insert request with a JSON object or the call raises.
\<close>

record services =
  requests_get :: "string \<Rightarrow> exn + response"
  videos_insert_execute :: "body \<Rightarrow> bytes \<Rightarrow> exn + (string \<rightharpoonup> string)"

text \<open>
  The observable state: the lines printed so far, the files on disk (oldest first),
  the URLs requested and the insert requests executed.
\<close>

record world =
  stdout :: "string list"
  files :: "(string \<times> bytes) list"
  http_gets :: "string list"
  inserts :: "(body \<times> bytes) list"

definition print :: "string \<Rightarrow> world \<Rightarrow> world" where
  "print line w = w\<lparr>stdout := stdout w @ [line]\<rparr>"

subsection \<open>Configuration loader\<close>

definition env_bool :: "(string \<rightharpoonup> string) \<Rightarrow> string \<Rightarrow> bool \<Rightarrow> bool" where
  "env_bool environ name dflt =
     (case environ name of
        None \<Rightarrow> dflt
      | Some val \<Rightarrow> lower val \<in> set [''1'', ''true'', ''yes'', ''y''])"

definition env_int :: "(string \<rightharpoonup> string) \<Rightarrow> string \<Rightarrow> int \<Rightarrow> int" where
  "env_int environ name dflt =
     (case py_int (case environ name of None \<Rightarrow> str_int dflt | Some v \<Rightarrow> v) of
        Some n \<Rightarrow> n
      | None \<Rightarrow> dflt)"

text \<open>\<open>os.getenv(name, default)\<close> and \<open>os.environ[name]\<close>.\<close>

definition getenv :: "(string \<rightharpoonup> string) \<Rightarrow> string \<Rightarrow> string \<Rightarrow> string" where
  "getenv environ name dflt = (case environ name of None \<Rightarrow> dflt | Some v \<Rightarrow> v)"

definition environ_item :: "(string \<rightharpoonup> string) \<Rightarrow> string \<Rightarrow> exn + string" where
  "environ_item environ name = (case environ name of None \<Rightarrow> Inl (KeyError name) | Some v \<Rightarrow> Inr v)"

subsection \<open>Client factory\<close>

text \<open>
  The client is the capability to execute an insert request. The three credentials are
  read in the order of the keyword arguments; a missing one raises \<open>KeyError\<close>.
\<close>

definition build_youtube_client ::
  "(string \<rightharpoonup> string) \<Rightarrow> services \<Rightarrow> exn + (body \<Rightarrow> bytes \<Rightarrow> exn + (string \<rightharpoonup> string))" where
  "build_youtube_client environ svc =
     (case environ_item environ ''YT_REFRESH_TOKEN'' of Inl e \<Rightarrow> Inl e | Inr _ \<Rightarrow>
      case environ_item environ ''YT_CLIENT_ID'' of Inl e \<Rightarrow> Inl e | Inr _ \<Rightarrow>
      case environ_item environ ''YT_CLIENT_SECRET'' of Inl e \<Rightarrow> Inl e | Inr _ \<Rightarrow>
      Inr (videos_insert_execute svc))"

subsection \<open>Fetcher\<close>

text \<open>
  \<open>Response.raise_for_status\<close> of the HTTP library: an \<open>HTTPError\<close> for a status from
  400 to 599, nothing otherwise.
\<close>

definition raise_for_status :: "response \<Rightarrow> exn + unit" where
  "raise_for_status resp =
     (if 400 \<le> status_code resp \<and> status_code resp < 500 then
        Inl (HTTPError (str_int (status_code resp) @ '' Client Error: '' @ reason resp
                        @ '' for url: '' @ url resp))
      else if 500 \<le> status_code resp \<and> status_code resp < 600 then
        Inl (HTTPError (str_int (status_code resp) @ '' Server Error: '' @ reason resp
                        @ '' for url: '' @ url resp))
      else Inr ())"

text \<open>
  \<open>tempfile.NamedTemporaryFile(delete=False, suffix=".mp4")\<close> creates a file under a
  name that no file has yet. The library draws the name at random; the model takes one
  that is longer than every name in use.
\<close>

definition NamedTemporaryFile :: "(string \<times> bytes) list \<Rightarrow> string" where
  "NamedTemporaryFile fs =
     ''/tmp/tmp'' @ replicate (Suc (fold max (map (\<lambda>f. length (fst f)) fs) 0)) CHR ''x''
     @ ''.mp4''"

text \<open>The loop over the chunks of the body: an empty chunk is not written.\<close>

fun write_chunks :: "bytes list \<Rightarrow> bytes \<Rightarrow> bytes" where
  "write_chunks [] tmp = tmp"
| "write_chunks (chunk # rest) tmp =
     write_chunks rest (if chunk \<noteq> [] then tmp @ chunk else tmp)"

definition download_video_to_temp ::
  "services \<Rightarrow> string \<Rightarrow> world \<Rightarrow> (exn + string option) \<times> world" where
  "download_video_to_temp svc video_url w0 =
     (let w1 = print (''Downloading video from '' @ video_url) w0;
          w2 = w1\<lparr>http_gets := http_gets w1 @ [video_url]\<rparr>
      in case requests_get svc video_url of
           Inl e \<Rightarrow> (Inl e, w2)
         | Inr resp \<Rightarrow>
             if status_code resp = 404 then
               (Inr None, print ''  -> File not found (404), skipping.'' w2)
             else
               (case raise_for_status resp of
                  Inl e \<Rightarrow> (Inl e, w2)
                | Inr _ \<Rightarrow>
                    let name = NamedTemporaryFile (files w2);
                        w3 = w2\<lparr>files := files w2 @ [(name, write_chunks (iter_content resp) [])]\<rparr>;
                        w4 = print (''  -> Saved to '' @ name) w3
                    in (Inr (Some name), w4)))"

subsection \<open>Uploader\<close>

definition disclosure :: string where
  "disclosure = [CHR 0x0A, CHR 0x0A] @ ''[Contains AI-generated or edited content]''"

text \<open>The metadata document as it stands when the request is built.\<close>

definition upload_body ::
  "string \<Rightarrow> string \<Rightarrow> string \<Rightarrow> string \<Rightarrow> bool \<Rightarrow> bool \<Rightarrow> body" where
  "upload_body title description category_id privacy_status made_for_kids altered_content =
     (let body = \<lparr>snippet_title = title,
                  snippet_description = description,
                  snippet_categoryId = category_id,
                  status_privacyStatus = privacy_status,
                  status_selfDeclaredMadeForKids = made_for_kids,
                  contentDetails_hasCustomThumbnail = None\<rparr>
      in if altered_content then
           body\<lparr>contentDetails_hasCustomThumbnail := Some False,
                snippet_description := snippet_description body @ disclosure\<rparr>
         else body)"

text \<open>
  The function has no \<open>return\<close> statement: when it does not raise, its value is
  \<open>None\<close>. \<open>response.get("id")\<close> is \<open>None\<close> when the key is missing, and the
  f-string prints that as \<open>None\<close>.
\<close>

definition upload_one_video ::
  "(body \<Rightarrow> bytes \<Rightarrow> exn + (string \<rightharpoonup> string)) \<Rightarrow> string \<Rightarrow> string \<Rightarrow> string \<Rightarrow> string \<Rightarrow>
   string \<Rightarrow> bool \<Rightarrow> bool \<Rightarrow> world \<Rightarrow> (exn + string option) \<times> world" where
  "upload_one_video youtube file_path title description category_id privacy_status
                    made_for_kids altered_content w0 =
     (let w1 = print (''Uploading '' @ file_path @ '' to YouTube...'') w0;
          body = upload_body title description category_id privacy_status made_for_kids
                   altered_content
      in case map_of (files w1) file_path of
           None \<Rightarrow> (Inl (FileNotFoundError file_path), w1)
         | Some media \<Rightarrow>
             let w2 = w1\<lparr>inserts := inserts w1 @ [(body, media)]\<rparr>
             in case youtube body media of
                  Inl e \<Rightarrow> (Inl e, w2)
                | Inr response \<Rightarrow>
                    let video_id = response ''id''
                    in (Inr None,
                        print (''  -> Uploaded successfully, video id: ''
                               @ (case video_id of None \<Rightarrow> ''None'' | Some v \<Rightarrow> v)) w2))"

subsection \<open>Daily run orchestrator\<close>

text \<open>The local variables of \<open>main\<close> that the loop reads.\<close>

record config =
  cfg_today :: string
  cfg_base_url :: string
  cfg_prefix :: string
  cfg_title_prefix :: string
  cfg_description :: string
  cfg_category_id :: string
  cfg_privacy_status :: string
  cfg_made_for_kids :: bool
  cfg_altered_content :: bool
  cfg_max_daily_uploads :: int

text \<open>\<open>filename\<close>, \<open>title\<close> and \<open>video_url\<close> of the iteration with the given index.\<close>

definition filename :: "config \<Rightarrow> int \<Rightarrow> string" where
  "filename cfg index =
     (if cfg_max_daily_uploads cfg = 1 then cfg_today cfg @ ''.mp4''
      else cfg_today cfg @ ''-'' @ str_int index @ ''.mp4'')"

definition title :: "config \<Rightarrow> int \<Rightarrow> string" where
  "title cfg index =
     (if cfg_max_daily_uploads cfg = 1 then cfg_title_prefix cfg @ '' - '' @ cfg_today cfg
      else cfg_title_prefix cfg @ '' - '' @ cfg_today cfg @ '' Part '' @ str_int index)"

definition video_url :: "config \<Rightarrow> int \<Rightarrow> string" where
  "video_url cfg index = cfg_base_url cfg @ ''/'' @ cfg_prefix cfg @ ''/'' @ filename cfg index"

text \<open>
  The \<open>try\<close> block of one iteration: its value is the exception that left it, or whether
  it ran to its end (\<open>False\<close> is the \<open>continue\<close> after a file that was not found).
\<close>

definition try_block ::
  "services \<Rightarrow> (body \<Rightarrow> bytes \<Rightarrow> exn + (string \<rightharpoonup> string)) \<Rightarrow> config \<Rightarrow> int \<Rightarrow> world \<Rightarrow>
   (exn + bool) \<times> world" where
  "try_block svc youtube cfg index w =
     (case download_video_to_temp svc (video_url cfg index) w of
        (Inl e, w') \<Rightarrow> (Inl e, w')
      | (Inr None, w') \<Rightarrow> (Inr False, w')
      | (Inr (Some temp_path), w') \<Rightarrow>
          (case upload_one_video youtube temp_path (title cfg index) (cfg_description cfg)
                  (cfg_category_id cfg) (cfg_privacy_status cfg) (cfg_made_for_kids cfg)
                  (cfg_altered_content cfg) w' of
             (Inl e, w'') \<Rightarrow> (Inl e, w'')
           | (Inr _, w'') \<Rightarrow> (Inr True, w'')))"

text \<open>One iteration of the loop, on the pair of \<open>uploaded_any\<close> and the world.\<close>

definition iteration ::
  "services \<Rightarrow> (body \<Rightarrow> bytes \<Rightarrow> exn + (string \<rightharpoonup> string)) \<Rightarrow> config \<Rightarrow> int \<Rightarrow>
   bool \<times> world \<Rightarrow> bool \<times> world" where
  "iteration svc youtube cfg index st =
     (let uploaded_any = fst st;
          w1 = print ([CHR 0x0A] @ ''=== Checking file: '' @ video_url cfg index @ '' ==='')
                 (snd st)
      in case try_block svc youtube cfg index w1 of
           (Inl e, w2) \<Rightarrow>
             (uploaded_any,
              print (''  -> Error with '' @ filename cfg index @ '': '' @ exn_str e) w2)
         | (Inr False, w2) \<Rightarrow> (uploaded_any, w2)
         | (Inr True, w2) \<Rightarrow> (True, w2))"

text \<open>\<open>for index in range(start, stop)\<close>: the index counts up while it is below the stop.\<close>

function for_range :: "int \<Rightarrow> int \<Rightarrow> (int \<Rightarrow> 's \<Rightarrow> 's) \<Rightarrow> 's \<Rightarrow> 's" where
  "for_range index stop step st =
     (if index < stop then for_range (index + 1) stop step (step index st) else st)"
  by pat_completeness auto
termination
  by (relation "measure (\<lambda>(index, stop, step, st). nat (stop - index))") auto

declare for_range.simps [simp del]

definition notice :: string where
  "notice = ''No files were uploaded today (nothing found in R2).''"

text \<open>The loop of \<open>main\<close> and the closing notice.\<close>

definition run_jobs ::
  "services \<Rightarrow> (body \<Rightarrow> bytes \<Rightarrow> exn + (string \<rightharpoonup> string)) \<Rightarrow> config \<Rightarrow> world \<Rightarrow> bool \<times> world" where
  "run_jobs svc youtube cfg w =
     for_range 1 (cfg_max_daily_uploads cfg + 1) (iteration svc youtube cfg) (False, w)"

definition finish :: "bool \<times> world \<Rightarrow> world" where
  "finish st = (if \<not> fst st then print notice (snd st) else snd st)"

text \<open>
  \<open>main\<close>: \<open>utcnow\<close> is today's date as \<open>strftime("%Y-%m-%d")\<close> gives it. A missing
  required variable raises \<open>KeyError\<close> before anything is printed.
\<close>

definition main :: "(string \<rightharpoonup> string) \<Rightarrow> string \<Rightarrow> services \<Rightarrow> world \<Rightarrow> exn + world" where
  "main environ utcnow svc w =
     (case environ_item environ ''R2_BASE_URL'' of Inl e \<Rightarrow> Inl e | Inr b \<Rightarrow>
      case environ_item environ ''R2_PREFIX_PATH'' of Inl e \<Rightarrow> Inl e | Inr p \<Rightarrow>
      let cfg = \<lparr>cfg_today = utcnow,
                 cfg_base_url = rstrip ''/'' b,
                 cfg_prefix = strip ''/'' p,
                 cfg_title_prefix = getenv environ ''YT_TITLE_PREFIX'' ''Daily Video'',
                 cfg_description = getenv environ ''YT_DESCRIPTION'' '''',
                 cfg_category_id = getenv environ ''YT_CATEGORY_ID'' ''22'',
                 cfg_privacy_status = getenv environ ''YT_PRIVACY_STATUS'' ''public'',
                 cfg_made_for_kids = env_bool environ ''YT_MADE_FOR_KIDS'' False,
                 cfg_altered_content = env_bool environ ''YT_ALTERED_CONTENT'' True,
                 cfg_max_daily_uploads = env_int environ ''YT_MAX_DAILY_UPLOADS'' 1\<rparr>
      in case build_youtube_client environ svc of Inl e \<Rightarrow> Inl e | Inr youtube \<Rightarrow>
         Inr (finish (run_jobs svc youtube cfg w)))"

subsection \<open>Notions of the specification\<close>

text \<open>
  Two strings are equal ignoring case when they have the same length and agree position
  by position, up to the case of an ASCII letter.
\<close>

definition is_capital :: "char \<Rightarrow> bool" where
  "is_capital c = (let n = (of_char c :: nat) in 65 \<le> n \<and> n \<le> 90)"

definition capital_of :: "char \<Rightarrow> char \<Rightarrow> bool" where
  "capital_of C c =
     (let n = (of_char C :: nat) in 65 \<le> n \<and> n \<le> 90 \<and> (of_char c :: nat) = n + 32)"

definition same_letter :: "char \<Rightarrow> char \<Rightarrow> bool" where
  "same_letter c d = (c = d \<or> capital_of c d \<or> capital_of d c)"

definition equal_ignoring_case :: "string \<Rightarrow> string \<Rightarrow> bool" where
  "equal_ignoring_case a b = list_all2 same_letter a b"

text \<open>
  An index completes an upload when the object store answers its URL with a status
  outside 400 to 599 and the platform accepts the insert request for the body received.
\<close>

definition upload_completes ::
  "services \<Rightarrow> (body \<Rightarrow> bytes \<Rightarrow> exn + (string \<rightharpoonup> string)) \<Rightarrow> config \<Rightarrow> int \<Rightarrow> bool" where
  "upload_completes svc youtube cfg index =
     (case requests_get svc (video_url cfg index) of
        Inl _ \<Rightarrow> False
      | Inr resp \<Rightarrow>
          \<not> (400 \<le> status_code resp \<and> status_code resp < 600) \<and>
          (case youtube (upload_body (title cfg index) (cfg_description cfg)
                           (cfg_category_id cfg) (cfg_privacy_status cfg)
                           (cfg_made_for_kids cfg) (cfg_altered_content cfg))
                        (concat (filter (\<lambda>chunk. chunk \<noteq> []) (iter_content resp))) of
             Inl _ \<Rightarrow> False
           | Inr _ \<Rightarrow> True))"


text \<open>The URLs a run requested; none when \<open>main\<close> raised.\<close>

definition requested :: "exn + world \<Rightarrow> string list" where
  "requested r = (case r of Inl _ \<Rightarrow> [] | Inr w \<Rightarrow> http_gets w)"

definition printed :: "exn + world \<Rightarrow> string list" where
  "printed r = (case r of Inl _ \<Rightarrow> [] | Inr w \<Rightarrow> stdout w)"

subsection \<open>Sample inputs\<close>

definition empty_world :: world where
  "empty_world = \<lparr>stdout = [], files = [], http_gets = [], inserts = []\<rparr>"

definition sample_environ :: "string \<rightharpoonup> string" where
  "sample_environ =
     [''R2_BASE_URL'' \<mapsto> ''https://cdn.example.com'', ''R2_PREFIX_PATH'' \<mapsto> ''videos'',
      ''YT_REFRESH_TOKEN'' \<mapsto> ''token'', ''YT_CLIENT_ID'' \<mapsto> ''id'',
      ''YT_CLIENT_SECRET'' \<mapsto> ''secret'']"

definition sample_config :: config where
  "sample_config =
     \<lparr>cfg_today = ''2024-03-01'', cfg_base_url = ''https://cdn.example.com'',
      cfg_prefix = ''videos'', cfg_title_prefix = ''Daily Video'', cfg_description = ''News'',
      cfg_category_id = ''22'', cfg_privacy_status = ''public'', cfg_made_for_kids = False,
      cfg_altered_content = True, cfg_max_daily_uploads = 2\<rparr>"

definition ok_response :: response where
  "ok_response = \<lparr>status_code = 200, reason = ''OK'',
     url = ''https://cdn.example.com/videos/2024-03-01.mp4'',
     iter_content = [[1, 2], [], [3]]\<rparr>"

definition missing_response :: response where
  "missing_response = \<lparr>status_code = 404, reason = ''Not Found'',
     url = ''https://cdn.example.com/videos/2024-03-01.mp4'', iter_content = []\<rparr>"



definition platform_ok :: "body \<Rightarrow> bytes \<Rightarrow> exn + (string \<rightharpoonup> string)" where
  "platform_ok b media = Inr [''id'' \<mapsto> ''abc123'']"

definition platform_down :: "body \<Rightarrow> bytes \<Rightarrow> exn + (string \<rightharpoonup> string)" where
  "platform_down b media = Inl (Raised ''quotaExceeded'')"

definition store_ok :: services where
  "store_ok = \<lparr>requests_get = (\<lambda>u. Inr ok_response), videos_insert_execute = platform_ok\<rparr>"

definition store_missing :: services where
  "store_missing =
     \<lparr>requests_get = (\<lambda>u. Inr missing_response), videos_insert_execute = platform_ok\<rparr>"



definition store_unreachable :: services where
  "store_unreachable =
     \<lparr>requests_get = (\<lambda>u. Inl (Raised ''Connection refused'')),
      videos_insert_execute = platform_ok\<rparr>"

definition stored_world :: world where
  "stored_world = \<lparr>stdout = [], files = [(''/tmp/tmpx.mp4'', [1, 2, 3])], http_gets = [],
                    inserts = []\<rparr>"

text \<open>A base URL written relative to the protocol, and a day without uploads.\<close>

definition slashed_environ :: "string \<rightharpoonup> string" where
  "slashed_environ = sample_environ(''R2_BASE_URL'' \<mapsto> ''//cdn.example.com/'')"

definition idle_environ :: "string \<rightharpoonup> string" where
  "idle_environ = sample_environ(''YT_MAX_DAILY_UPLOADS'' \<mapsto> ''0'')"

section \<open>Properties\<close>

subsection \<open>Auxiliary facts\<close>

lemma files_print [simp]: "files (print l w) = files w"
  and inserts_print [simp]: "inserts (print l w) = inserts w"
  and http_gets_print [simp]: "http_gets (print l w) = http_gets w"
  and stdout_print [simp]: "stdout (print l w) = stdout w @ [l]"
  by (simp_all add: print_def)

lemma digit_char_numeral:
  "digit_char 0 = CHR ''0''" "digit_char 1 = CHR ''1''" "digit_char 2 = CHR ''2''"
  "digit_char 3 = CHR ''3''" "digit_char 4 = CHR ''4''" "digit_char 5 = CHR ''5''"
  "digit_char 6 = CHR ''6''" "digit_char 7 = CHR ''7''" "digit_char 8 = CHR ''8''"
  "digit_char 9 = CHR ''9''" "digit_char (Suc 0) = CHR ''1''"
  by (simp_all add: digit_char_def char_of_def bit_Suc_0_iff)

text \<open>
  The integer reader at the edges of what \<open>int\<close> accepts: a separator character is
  not white space, a no-break space is, a sign and single underscores are read, and a
  literal of 4301 digits is refused. A value that does not parse gives the default.
\<close>

lemma py_int_separator: "py_int [CHR 0x1C, CHR ''0''] = None"
  by (simp add: py_int_def strip_def lstrip_def rstrip_def whitespace_def digits_value_def
        is_digit_def digit_val_def max_str_digits_def Let_def)

lemma py_int_no_break_space: "py_int [CHR 0xA0, CHR ''0''] = Some 0"
  by (simp add: py_int_def strip_def lstrip_def rstrip_def whitespace_def digits_value_def
        is_digit_def digit_val_def max_str_digits_def Let_def)

lemma py_int_signed: "py_int '' -1_2 '' = Some (- 12)" "py_int ''+007'' = Some 7"
  "py_int ''1__2'' = None" "py_int ''- 1'' = None" "py_int '''' = None" "py_int ''12_'' = None"
  by (simp_all add: py_int_def strip_def lstrip_def rstrip_def whitespace_def digits_value_def
        is_digit_def digit_val_def max_str_digits_def Let_def)

lemma py_int_too_long:
  "max_str_digits < length (filter is_digit (strip whitespace s)) \<Longrightarrow> py_int s = None"
  by (simp add: py_int_def Let_def)

lemma py_int_zeros: "py_int (replicate 4301 CHR ''0'') = None"
proof -
  have "strip whitespace (replicate 4301 CHR ''0'') = replicate 4301 CHR ''0''"
    by (simp add: strip_def lstrip_def rstrip_def whitespace_def dropWhile_replicate)
  then show ?thesis
    by (intro py_int_too_long) (simp add: is_digit_def max_str_digits_def)
qed

lemma env_int_falls_back:
  "env_int [''YT_MAX_DAILY_UPLOADS'' \<mapsto> [CHR 0x1C, CHR ''0'']] ''YT_MAX_DAILY_UPLOADS'' 1 = 1"
  "env_int [''YT_MAX_DAILY_UPLOADS'' \<mapsto> ''two''] ''YT_MAX_DAILY_UPLOADS'' 1 = 1"
  "env_int [''YT_MAX_DAILY_UPLOADS'' \<mapsto> '' 3 ''] ''YT_MAX_DAILY_UPLOADS'' 1 = 3"
  by (simp_all add: env_int_def py_int_def strip_def lstrip_def rstrip_def whitespace_def
        digits_value_def is_digit_def digit_val_def max_str_digits_def Let_def)

lemma write_chunks_concat:
  "write_chunks chunks tmp = tmp @ concat (filter (\<lambda>chunk. chunk \<noteq> []) chunks)"
  by (induction chunks arbitrary: tmp) auto

lemma fold_max_ge: "(a::nat) \<le> fold max xs a"
  by (induction xs arbitrary: a) (auto intro: order_trans [OF max.cobounded2])

lemma fold_max_mem: "x \<in> set xs \<Longrightarrow> (x::nat) \<le> fold max xs a"
proof (induction xs arbitrary: a)
  case Nil
  then show ?case by simp
next
  case (Cons y ys)
  show ?case
  proof (cases "x = y")
    case True
    have "x \<le> max y a" using True by simp
    also have "\<dots> \<le> fold max ys (max y a)" by (rule fold_max_ge)
    finally show ?thesis by simp
  next
    case False
    with Cons show ?thesis by simp
  qed
qed

text \<open>The scratch file's name is not the name of a file that exists.\<close>

lemma NamedTemporaryFile_fresh: "NamedTemporaryFile fs \<notin> fst ` set fs"
proof
  assume "NamedTemporaryFile fs \<in> fst ` set fs"
  then obtain f where f: "f \<in> set fs" and eq: "fst f = NamedTemporaryFile fs" by auto
  from f have "length (fst f) \<le> fold max (map (\<lambda>f. length (fst f)) fs) 0"
    by (intro fold_max_mem) auto
  moreover have "length (NamedTemporaryFile fs) > fold max (map (\<lambda>f. length (fst f)) fs) 0"
    by (simp add: NamedTemporaryFile_def)
  ultimately show False using eq by simp
qed

lemma map_of_fresh_append:
  "name \<notin> fst ` set fs \<Longrightarrow> map_of (fs @ [(name, data)]) name = Some data"
  by (simp add: map_of_eq_None_iff [symmetric] map_add_def split: option.splits)

text \<open>The counting loop visits the indices from the start up to the stop, in order.\<close>

lemma for_range_fold:
  "for_range index stop step st = fold step [index..stop - 1] st"
proof (induction index stop step st rule: for_range.induct)
  case (1 index stop step st)
  show ?case
  proof (cases "index < stop")
    case True
    then have "[index..stop - 1] = index # [index + 1..stop - 1]"
      by (simp add: upto_rec1)
    with 1 True show ?thesis by (simp add: for_range.simps [of index])
  next
    case False
    then show ?thesis by (simp add: for_range.simps [of index])
  qed
qed

text \<open>The Fetcher and the Uploader, branch by branch.\<close>

lemma download_cases:
  "download_video_to_temp svc u w =
     (let w2 = (print (''Downloading video from '' @ u) w)\<lparr>http_gets := http_gets w @ [u]\<rparr> in
      case requests_get svc u of
        Inl e \<Rightarrow> (Inl e, w2)
      | Inr resp \<Rightarrow>
          if status_code resp = 404 then
            (Inr None, print ''  -> File not found (404), skipping.'' w2)
          else if 400 \<le> status_code resp \<and> status_code resp < 600
          then (Inl (case raise_for_status resp of Inl e \<Rightarrow> e | Inr _ \<Rightarrow> Raised []), w2)
          else (Inr (Some (NamedTemporaryFile (files w))),
                print (''  -> Saved to '' @ NamedTemporaryFile (files w))
                  (w2\<lparr>files := files w @ [(NamedTemporaryFile (files w),
                          concat (filter (\<lambda>chunk. chunk \<noteq> []) (iter_content resp)))]\<rparr>)))"
  by (auto simp: download_video_to_temp_def Let_def print_def raise_for_status_def
        write_chunks_concat split: sum.splits)

lemma upload_cases:
  "upload_one_video youtube file_path ttl descr category_id privacy_status made_for_kids
     altered_content w =
   (let w1 = print (''Uploading '' @ file_path @ '' to YouTube...'') w;
        b = upload_body ttl descr category_id privacy_status made_for_kids altered_content
    in case map_of (files w) file_path of
         None \<Rightarrow> (Inl (FileNotFoundError file_path), w1)
       | Some media \<Rightarrow>
           (case youtube b media of
              Inl e \<Rightarrow> (Inl e, w1\<lparr>inserts := inserts w @ [(b, media)]\<rparr>)
            | Inr response \<Rightarrow>
                (Inr None,
                 print (''  -> Uploaded successfully, video id: ''
                        @ (case response ''id'' of None \<Rightarrow> ''None'' | Some v \<Rightarrow> v))
                   (w1\<lparr>inserts := inserts w @ [(b, media)]\<rparr>))))"
  by (simp add: upload_one_video_def Let_def print_def split: option.splits sum.splits)

lemma upload_body_description:
  "snippet_description
     (upload_body ttl descr category_id privacy_status made_for_kids altered_content)
     = (if altered_content then descr @ disclosure else descr)"
  by (simp add: upload_body_def Let_def)

lemma upload_body_title:
  "snippet_title
     (upload_body ttl descr category_id privacy_status made_for_kids altered_content) = ttl"
  by (simp add: upload_body_def Let_def)

text \<open>Lower-casing compares a string with a word that has no capital letter.\<close>

lemma lower_char_eq_iff:
  assumes "\<not> is_capital d"
  shows "lower_char c = d \<longleftrightarrow> same_letter c d"
proof (cases "is_capital c")
  case True
  then have n: "65 \<le> (of_char c :: nat)" "(of_char c :: nat) \<le> 90"
    by (simp_all add: is_capital_def Let_def)
  have "lower_char c = d \<longleftrightarrow> (of_char (lower_char c) :: nat) = of_char d"
    by simp
  also have "(of_char (lower_char c) :: nat) = of_char c + 32"
    using n by (simp add: lower_char_def Let_def)
  finally have "lower_char c = d \<longleftrightarrow> (of_char d :: nat) = of_char c + 32"
    by auto
  moreover have "c \<noteq> d" using True assms by auto
  ultimately show ?thesis
    using n assms by (auto simp: same_letter_def capital_of_def is_capital_def Let_def)
next
  case False
  then have "lower_char c = c"
    by (auto simp: lower_char_def is_capital_def Let_def)
  then show ?thesis
    using False assms by (auto simp: same_letter_def capital_of_def is_capital_def Let_def)
qed

lemma lower_eq_iff:
  "\<forall>d\<in>set t. \<not> is_capital d \<Longrightarrow> lower v = t \<longleftrightarrow> equal_ignoring_case v t"
proof (induction v arbitrary: t)
  case Nil
  then show ?case by (auto simp: lower_def equal_ignoring_case_def)
next
  case (Cons c v)
  show ?case
  proof (cases t)
    case Nil
    then show ?thesis by (simp add: lower_def equal_ignoring_case_def)
  next
    case (Cons d t')
    with Cons.prems have d: "\<not> is_capital d" and t': "\<forall>d\<in>set t'. \<not> is_capital d"
      by simp_all
    from Cons.IH [OF t'] lower_char_eq_iff [OF d, of c] Cons show ?thesis
      by (simp add: lower_def equal_ignoring_case_def)
  qed
qed

subsection \<open>Configuration loader\<close>

text \<open>
  Claim C9. The boolean configuration reader returns the caller's default when the
  variable is absent. When the variable is present, it returns true exactly when the
  value, compared without regard to case, is one of \<open>1\<close>, \<open>true\<close>, \<open>yes\<close>, \<open>y\<close>;
  every other present value gives false.
\<close>

theorem env_bool_spec:
  "(environ name = None \<longrightarrow> env_bool environ name dflt = dflt) \<and>
   (\<forall>val. environ name = Some val \<longrightarrow>
      env_bool environ name dflt =
        (equal_ignoring_case val ''1'' \<or> equal_ignoring_case val ''true'' \<or>
         equal_ignoring_case val ''yes'' \<or> equal_ignoring_case val ''y''))"
proof -
  have "lower v = ''1'' \<longleftrightarrow> equal_ignoring_case v ''1''" for v
    by (rule lower_eq_iff) (simp add: is_capital_def)
  moreover have "lower v = ''true'' \<longleftrightarrow> equal_ignoring_case v ''true''" for v
    by (rule lower_eq_iff) (simp add: is_capital_def)
  moreover have "lower v = ''yes'' \<longleftrightarrow> equal_ignoring_case v ''yes''" for v
    by (rule lower_eq_iff) (simp add: is_capital_def)
  moreover have "lower v = ''y'' \<longleftrightarrow> equal_ignoring_case v ''y''" for v
    by (rule lower_eq_iff) (simp add: is_capital_def)
  ultimately show ?thesis
    by (auto simp: env_bool_def)
qed

theorem env_bool_spec_witness:
  "env_bool [''YT_MADE_FOR_KIDS'' \<mapsto> ''Yes''] ''YT_MADE_FOR_KIDS'' False = True
   \<and> env_bool [''YT_MADE_FOR_KIDS'' \<mapsto> ''on''] ''YT_MADE_FOR_KIDS'' True = False
   \<and> env_bool Map.empty ''YT_MADE_FOR_KIDS'' True = True"
  using env_bool_spec [of "[''YT_MADE_FOR_KIDS'' \<mapsto> ''Yes'']" "''YT_MADE_FOR_KIDS''" False]
    env_bool_spec [of "[''YT_MADE_FOR_KIDS'' \<mapsto> ''on'']" "''YT_MADE_FOR_KIDS''" True]
    env_bool_spec [of Map.empty "''YT_MADE_FOR_KIDS''" True]
  by (simp add: equal_ignoring_case_def same_letter_def capital_of_def)

subsection \<open>Fetcher\<close>




subsection \<open>Uploader\<close>

text \<open>
  Claim C4. The description of the metadata document that the Uploader submits is the
  original description followed by a blank line and the disclosure
  \<open>[Contains AI-generated or edited content]\<close> when \<open>altered_content\<close> is true, and
  the original description unchanged when it is false. The document is the one recorded
  with the insert request, which is made once the scratch file has been opened.
\<close>

theorem upload_description:
  "snippet_description
     (upload_body ttl descr category_id privacy_status made_for_kids altered_content)
     = (if altered_content
        then descr @ [CHR 0x0A, CHR 0x0A] @ ''[Contains AI-generated or edited content]''
        else descr)
   \<and> inserts (snd (upload_one_video youtube file_path ttl descr category_id privacy_status
                      made_for_kids altered_content w))
       = inserts w @
         (case map_of (files w) file_path of
            None \<Rightarrow> []
          | Some media \<Rightarrow>
              [(upload_body ttl descr category_id privacy_status made_for_kids altered_content,
                media)])"
  by (simp add: upload_cases upload_body_description disclosure_def Let_def
        split: option.splits sum.splits)

text \<open>
  Claim C2, as the code has it. A successful call of the Uploader (the scratch file
  opens and the platform answers the insert request) returns \<open>None\<close>, not the video
  identifier: the identifier taken from the response is printed in the last line of the
  output, as \<open>None\<close> when the response has none.
\<close>

theorem upload_returns_none:
  assumes "map_of (files w) file_path = Some media"
    and "youtube (upload_body ttl descr category_id privacy_status made_for_kids altered_content)
           media = Inr response"
  shows "fst (upload_one_video youtube file_path ttl descr category_id privacy_status
                made_for_kids altered_content w) = Inr None
    \<and> stdout (snd (upload_one_video youtube file_path ttl descr category_id privacy_status
                      made_for_kids altered_content w))
        = stdout w @ [''Uploading '' @ file_path @ '' to YouTube...'',
                      ''  -> Uploaded successfully, video id: ''
                      @ (case response ''id'' of None \<Rightarrow> ''None'' | Some v \<Rightarrow> v)]"
  using assms by (simp add: upload_cases Let_def)

theorem upload_returns_none_witness:
  "map_of (files stored_world) ''/tmp/tmpx.mp4'' = Some [1, 2, 3]
   \<and> platform_ok (upload_body ''Daily Video - 2024-03-01'' ''News'' ''22'' ''public'' False True)
        [1, 2, 3] = Inr [''id'' \<mapsto> ''abc123'']
   \<and> fst (upload_one_video platform_ok ''/tmp/tmpx.mp4'' ''Daily Video - 2024-03-01'' ''News''
            ''22'' ''public'' False True stored_world) = Inr None
   \<and> stdout (snd (upload_one_video platform_ok ''/tmp/tmpx.mp4'' ''Daily Video - 2024-03-01''
                     ''News'' ''22'' ''public'' False True stored_world))
       = [''Uploading /tmp/tmpx.mp4 to YouTube...'',
          ''  -> Uploaded successfully, video id: abc123'']"
proof -
  have f: "map_of (files stored_world) ''/tmp/tmpx.mp4'' = Some [1, 2, 3]"
    by (simp add: stored_world_def)
  have y: "platform_ok (upload_body ''Daily Video - 2024-03-01'' ''News'' ''22'' ''public'' False True)
        [1, 2, 3] = Inr [''id'' \<mapsto> ''abc123'']"
    by (simp add: platform_ok_def)
  show ?thesis
    using upload_returns_none [where youtube = platform_ok, OF f y] f y
    by (simp add: stored_world_def)
qed

text \<open>
  The claim as it was stated fails: the platform assigns the identifier \<open>abc123\<close>, and
  the value of the call is not that identifier.
\<close>

theorem upload_returns_id_counterexample:
  "platform_ok (upload_body ''Daily Video - 2024-03-01'' ''News'' ''22'' ''public'' False True)
        [1, 2, 3] = Inr [''id'' \<mapsto> ''abc123'']
   \<and> fst (upload_one_video platform_ok ''/tmp/tmpx.mp4'' ''Daily Video - 2024-03-01'' ''News''
            ''22'' ''public'' False True stored_world) \<noteq> Inr (Some ''abc123'')"
  by (simp add: upload_cases stored_world_def platform_ok_def Let_def)

subsection \<open>Daily run orchestrator\<close>

text \<open>
  What one iteration does to the flag, to the list of requested URLs, to the output and
  to the list of insert requests; then the same for a run over a list of indices.
\<close>

lemma try_block_flag:
  "fst (try_block svc youtube cfg index w) = Inr True \<longleftrightarrow> upload_completes svc youtube cfg index"
  using NamedTemporaryFile_fresh [of "files w"]
  by (auto simp: try_block_def download_cases upload_cases upload_completes_def Let_def
        map_of_fresh_append simp del: map_of_append split: sum.splits option.splits)

lemma iteration_flag:
  "fst (iteration svc youtube cfg index st) = (fst st \<or> upload_completes svc youtube cfg index)"
proof -
  let ?w1 = "print ([CHR 0x0A] @ ''=== Checking file: '' @ video_url cfg index @ '' ==='') (snd st)"
  have "fst (try_block svc youtube cfg index ?w1) = Inr True
          \<longleftrightarrow> upload_completes svc youtube cfg index"
    by (rule try_block_flag)
  then show ?thesis
    by (cases "try_block svc youtube cfg index ?w1")
       (auto simp: iteration_def Let_def split: sum.splits bool.splits)
qed

lemma try_block_http_gets:
  "http_gets (snd (try_block svc youtube cfg index w)) = http_gets w @ [video_url cfg index]"
  by (auto simp: try_block_def download_cases upload_cases Let_def
        split: sum.splits option.splits)

lemma iteration_http_gets:
  "http_gets (snd (iteration svc youtube cfg index st)) =
     http_gets (snd st) @ [video_url cfg index]"
proof -
  let ?w1 = "print ([CHR 0x0A] @ ''=== Checking file: '' @ video_url cfg index @ '' ==='') (snd st)"
  have "http_gets (snd (try_block svc youtube cfg index ?w1)) = http_gets (snd st) @ [video_url cfg index]"
    by (simp add: try_block_http_gets)
  then show ?thesis
    by (cases "try_block svc youtube cfg index ?w1")
       (auto simp: iteration_def Let_def split: sum.splits bool.splits)
qed

lemma try_block_stdout:
  "\<exists>ls. stdout (snd (try_block svc youtube cfg index w)) = stdout w @ ls \<and> notice \<notin> set ls"
  by (auto simp: try_block_def download_cases upload_cases Let_def notice_def
        split: sum.splits option.splits)

lemma iteration_stdout:
  "\<exists>ls. stdout (snd (iteration svc youtube cfg index st)) = stdout (snd st) @ ls \<and> notice \<notin> set ls"
proof -
  let ?w1 = "print ([CHR 0x0A] @ ''=== Checking file: '' @ video_url cfg index @ '' ==='') (snd st)"
  obtain ls where ls: "stdout (snd (try_block svc youtube cfg index ?w1)) = stdout ?w1 @ ls"
    "notice \<notin> set ls"
    using try_block_stdout by blast
  then show ?thesis
    by (cases "try_block svc youtube cfg index ?w1")
       (auto simp: iteration_def Let_def notice_def split: sum.splits bool.splits)
qed

lemma try_block_inserts:
  "\<exists>bs. inserts (snd (try_block svc youtube cfg index w)) = inserts w @ bs
     \<and> (\<forall>bm\<in>set bs. snippet_title (fst bm) = title cfg index)"
  by (auto simp: try_block_def download_cases upload_cases Let_def upload_body_title
        split: sum.splits option.splits)

lemma iteration_inserts:
  "\<exists>bs. inserts (snd (iteration svc youtube cfg index st)) = inserts (snd st) @ bs
     \<and> (\<forall>bm\<in>set bs. snippet_title (fst bm) = title cfg index)"
proof -
  let ?w1 = "print ([CHR 0x0A] @ ''=== Checking file: '' @ video_url cfg index @ '' ==='') (snd st)"
  obtain bs where "inserts (snd (try_block svc youtube cfg index ?w1)) = inserts ?w1 @ bs"
    "\<forall>bm\<in>set bs. snippet_title (fst bm) = title cfg index"
    using try_block_inserts by blast
  then show ?thesis
    by (cases "try_block svc youtube cfg index ?w1")
       (auto simp: iteration_def Let_def split: sum.splits bool.splits)
qed

lemma run_jobs_fold:
  "run_jobs svc youtube cfg w =
     fold (iteration svc youtube cfg) [1..cfg_max_daily_uploads cfg] (False, w)"
  by (simp add: run_jobs_def for_range_fold)

lemma fold_iteration_flag:
  "fst (fold (iteration svc youtube cfg) is st) =
     (fst st \<or> (\<exists>i\<in>set is. upload_completes svc youtube cfg i))"
  by (induction "is" arbitrary: st) (auto simp: iteration_flag)

lemma fold_iteration_http_gets:
  "http_gets (snd (fold (iteration svc youtube cfg) is st)) =
     http_gets (snd st) @ map (video_url cfg) is"
  by (induction "is" arbitrary: st) (auto simp: iteration_http_gets)

lemma fold_iteration_stdout:
  "\<exists>ls. stdout (snd (fold (iteration svc youtube cfg) is st)) = stdout (snd st) @ ls
        \<and> notice \<notin> set ls"
proof (induction "is" arbitrary: st)
  case Nil
  then show ?case by simp
next
  case (Cons i "is")
  obtain l1 where l1: "stdout (snd (iteration svc youtube cfg i st)) = stdout (snd st) @ l1"
    "notice \<notin> set l1"
    using iteration_stdout by blast
  obtain l2 where l2: "stdout (snd (fold (iteration svc youtube cfg) is (iteration svc youtube cfg i st)))
      = stdout (snd (iteration svc youtube cfg i st)) @ l2" "notice \<notin> set l2"
    using Cons.IH by blast
  have "stdout (snd (fold (iteration svc youtube cfg) (i # is) st)) = stdout (snd st) @ (l1 @ l2)"
    using l1 l2 by simp
  moreover have "notice \<notin> set (l1 @ l2)" using l1 l2 by simp
  ultimately show ?case by blast
qed

lemma fold_iteration_inserts:
  "\<exists>bs. inserts (snd (fold (iteration svc youtube cfg) is st)) = inserts (snd st) @ bs
        \<and> (\<forall>bm\<in>set bs. \<exists>i\<in>set is. snippet_title (fst bm) = title cfg i)"
proof (induction "is" arbitrary: st)
  case Nil
  then show ?case by simp
next
  case (Cons i "is")
  obtain b1 where b1: "inserts (snd (iteration svc youtube cfg i st)) = inserts (snd st) @ b1"
    "\<forall>bm\<in>set b1. snippet_title (fst bm) = title cfg i"
    using iteration_inserts by blast
  obtain b2 where b2: "inserts (snd (fold (iteration svc youtube cfg) is (iteration svc youtube cfg i st)))
      = inserts (snd (iteration svc youtube cfg i st)) @ b2"
    "\<forall>bm\<in>set b2. \<exists>j\<in>set is. snippet_title (fst bm) = title cfg j"
    using Cons.IH by blast
  have "inserts (snd (fold (iteration svc youtube cfg) (i # is) st)) = inserts (snd st) @ (b1 @ b2)"
    using b1 b2 by simp
  moreover have "\<forall>bm\<in>set (b1 @ b2). \<exists>j\<in>set (i # is). snippet_title (fst bm) = title cfg j"
    using b1 b2 by auto
  ultimately show ?case by blast
qed

text \<open>
  Claim C7. When the fetch of an index returns not found, the iteration does not call
  the Uploader: no insert request is made, no file is written, the output gains the
  three lines of the check and nothing of the Uploader, and \<open>uploaded_any\<close> keeps the
  value it had.
\<close>

theorem not_found_skips_upload:
  assumes "fst (download_video_to_temp svc (video_url cfg index)
             (print ([CHR 0x0A] @ ''=== Checking file: '' @ video_url cfg index @ '' ==='') w))
           = Inr None"
  shows "fst (iteration svc youtube cfg index (uploaded_any, w)) = uploaded_any
    \<and> inserts (snd (iteration svc youtube cfg index (uploaded_any, w))) = inserts w
    \<and> files (snd (iteration svc youtube cfg index (uploaded_any, w))) = files w
    \<and> stdout (snd (iteration svc youtube cfg index (uploaded_any, w)))
        = stdout w @ [[CHR 0x0A] @ ''=== Checking file: '' @ video_url cfg index @ '' ==='',
                      ''Downloading video from '' @ video_url cfg index,
                      ''  -> File not found (404), skipping.'']"
  using assms
  by (auto simp: iteration_def try_block_def download_cases Let_def
        split: sum.splits if_splits)

theorem not_found_skips_upload_witness:
  "fst (download_video_to_temp store_missing (video_url sample_config 2)
          (print ([CHR 0x0A] @ ''=== Checking file: '' @ video_url sample_config 2 @ '' ==='')
             empty_world)) = Inr None
   \<and> iteration store_missing platform_ok sample_config 2 (False, empty_world)
       = (False,
          \<lparr>stdout = [[CHR 0x0A] @ ''=== Checking file: https://cdn.example.com/videos/2024-03-01-2.mp4 ==='',
                     ''Downloading video from https://cdn.example.com/videos/2024-03-01-2.mp4'',
                     ''  -> File not found (404), skipping.''],
           files = [],
           http_gets = [''https://cdn.example.com/videos/2024-03-01-2.mp4''],
           inserts = []\<rparr>)"
proof -
  have u: "video_url sample_config 2 = ''https://cdn.example.com/videos/2024-03-01-2.mp4''"
    by (simp add: video_url_def filename_def sample_config_def str_int_def str_nat.simps
          digit_char_numeral)
  have h: "fst (download_video_to_temp store_missing (video_url sample_config 2)
          (print ([CHR 0x0A] @ ''=== Checking file: '' @ video_url sample_config 2 @ '' ==='')
             empty_world)) = Inr None"
    by (simp add: download_cases store_missing_def missing_response_def Let_def)
  have g: "http_gets (snd (iteration store_missing platform_ok sample_config 2 (False, empty_world)))
      = [''https://cdn.example.com/videos/2024-03-01-2.mp4'']"
    by (simp add: iteration_http_gets u empty_world_def)
  show ?thesis
    using not_found_skips_upload [OF h, of platform_ok False] h g
    by (cases "iteration store_missing platform_ok sample_config 2 (False, empty_world)")
       (auto simp: u empty_world_def)
qed

text \<open>The names that the sample configuration, with two uploads a day, derives.\<close>

lemma sample_names:
  "video_url sample_config 1 = ''https://cdn.example.com/videos/2024-03-01-1.mp4''"
  "video_url sample_config 2 = ''https://cdn.example.com/videos/2024-03-01-2.mp4''"
  "filename sample_config 1 = ''2024-03-01-1.mp4''"
  "filename sample_config 2 = ''2024-03-01-2.mp4''"
  "title sample_config 1 = ''Daily Video - 2024-03-01 Part 1''"
  "title sample_config 2 = ''Daily Video - 2024-03-01 Part 2''"
  by (simp_all add: video_url_def filename_def title_def sample_config_def str_int_def
        str_nat.simps digit_char_numeral)

text \<open>
  Claim C1. When the fetch of an index raises, or its upload raises, the iteration ends
  with the line \<open>-> Error with <filename>: <message>\<close> printed after what the failed
  call had done, and \<open>uploaded_any\<close> as it was: the exception does not leave the
  iteration. The loop is the iteration applied to every index from 1 to
  \<open>max_daily_uploads\<close> in turn, and whatever the services answer or raise, every one
  of these indices has its URL requested.
\<close>

theorem failure_isolated:
  "(\<forall>e w'. download_video_to_temp svc (video_url cfg index)
              (print ([CHR 0x0A] @ ''=== Checking file: '' @ video_url cfg index @ '' ==='') w)
            = (Inl e, w') \<longrightarrow>
      iteration svc youtube cfg index (uploaded_any, w)
        = (uploaded_any,
           print (''  -> Error with '' @ filename cfg index @ '': '' @ exn_str e) w'))
   \<and> (\<forall>p w' e w''. download_video_to_temp svc (video_url cfg index)
              (print ([CHR 0x0A] @ ''=== Checking file: '' @ video_url cfg index @ '' ==='') w)
            = (Inr (Some p), w') \<longrightarrow>
          upload_one_video youtube p (title cfg index) (cfg_description cfg)
              (cfg_category_id cfg) (cfg_privacy_status cfg) (cfg_made_for_kids cfg)
              (cfg_altered_content cfg) w'
            = (Inl e, w'') \<longrightarrow>
      iteration svc youtube cfg index (uploaded_any, w)
        = (uploaded_any,
           print (''  -> Error with '' @ filename cfg index @ '': '' @ exn_str e) w''))
   \<and> run_jobs svc youtube cfg w0
       = fold (iteration svc youtube cfg) [1..cfg_max_daily_uploads cfg] (False, w0)
   \<and> http_gets (snd (run_jobs svc youtube cfg w0))
       = http_gets w0 @ map (video_url cfg) [1..cfg_max_daily_uploads cfg]"
  by (simp add: iteration_def try_block_def Let_def run_jobs_fold fold_iteration_http_gets)

theorem failure_isolated_witness:
  "iteration store_unreachable platform_ok sample_config 1 (False, empty_world)
     = (False,
        \<lparr>stdout = [[CHR 0x0A] @ ''=== Checking file: https://cdn.example.com/videos/2024-03-01-1.mp4 ==='',
                   ''Downloading video from https://cdn.example.com/videos/2024-03-01-1.mp4'',
                   ''  -> Error with 2024-03-01-1.mp4: Connection refused''],
         files = [],
         http_gets = [''https://cdn.example.com/videos/2024-03-01-1.mp4''],
         inserts = []\<rparr>)
   \<and> stdout (snd (iteration store_ok platform_down sample_config 1 (False, empty_world)))
     = [[CHR 0x0A] @ ''=== Checking file: https://cdn.example.com/videos/2024-03-01-1.mp4 ==='',
        ''Downloading video from https://cdn.example.com/videos/2024-03-01-1.mp4'',
        ''  -> Saved to /tmp/tmpx.mp4'',
        ''Uploading /tmp/tmpx.mp4 to YouTube...'',
        ''  -> Error with 2024-03-01-1.mp4: quotaExceeded'']
   \<and> http_gets (snd (run_jobs store_unreachable platform_ok sample_config empty_world))
     = [''https://cdn.example.com/videos/2024-03-01-1.mp4'',
        ''https://cdn.example.com/videos/2024-03-01-2.mp4'']"
proof -
  let ?w1 = "print ([CHR 0x0A] @ ''=== Checking file: '' @ video_url sample_config 1 @ '' ==='')
               empty_world"
  let ?w2 = "(print (''Downloading video from '' @ video_url sample_config 1) ?w1)
               \<lparr>http_gets := [video_url sample_config 1]\<rparr>"
  let ?w3 = "print (''  -> Saved to /tmp/tmpx.mp4'')
               (?w2\<lparr>files := [(''/tmp/tmpx.mp4'', [1, 2, 3])]\<rparr>)"
  let ?b = "upload_body (title sample_config 1) (cfg_description sample_config)
              (cfg_category_id sample_config) (cfg_privacy_status sample_config)
              (cfg_made_for_kids sample_config) (cfg_altered_content sample_config)"
  let ?w4 = "(print (''Uploading /tmp/tmpx.mp4 to YouTube...'') ?w3)
               \<lparr>inserts := [(?b, [1, 2, 3])]\<rparr>"
  have d1: "download_video_to_temp store_unreachable (video_url sample_config 1) ?w1
      = (Inl (Raised ''Connection refused''), ?w2)"
    by (simp add: download_cases store_unreachable_def empty_world_def Let_def)
  have d2: "download_video_to_temp store_ok (video_url sample_config 1) ?w1
      = (Inr (Some ''/tmp/tmpx.mp4''), ?w3)"
    by (simp add: download_cases store_ok_def ok_response_def empty_world_def Let_def
          NamedTemporaryFile_def)
  have u2: "upload_one_video platform_down ''/tmp/tmpx.mp4'' (title sample_config 1)
              (cfg_description sample_config) (cfg_category_id sample_config)
              (cfg_privacy_status sample_config) (cfg_made_for_kids sample_config)
              (cfg_altered_content sample_config) ?w3
      = (Inl (Raised ''quotaExceeded''), ?w4)"
    by (simp add: upload_cases platform_down_def empty_world_def Let_def)
  note thm1 = failure_isolated [of store_unreachable sample_config 1 empty_world platform_ok
      False empty_world]
  note thm2 = failure_isolated [of store_ok sample_config 1 empty_world platform_down
      False empty_world]
  have "iteration store_unreachable platform_ok sample_config 1 (False, empty_world)
      = (False, print (''  -> Error with '' @ filename sample_config 1 @ '': ''
                       @ exn_str (Raised ''Connection refused'')) ?w2)"
    using thm1 d1 by blast
  moreover have "iteration store_ok platform_down sample_config 1 (False, empty_world)
      = (False, print (''  -> Error with '' @ filename sample_config 1 @ '': ''
                       @ exn_str (Raised ''quotaExceeded'')) ?w4)"
    using thm2 d2 u2 by blast
  moreover have "http_gets (snd (run_jobs store_unreachable platform_ok sample_config empty_world))
      = http_gets empty_world @ map (video_url sample_config) [1..cfg_max_daily_uploads sample_config]"
    using thm1 by blast
  moreover have "[1..cfg_max_daily_uploads sample_config] = [1, 2]"
    by (simp add: sample_config_def upto_rec1)
  ultimately show ?thesis
    by (simp add: sample_names empty_world_def print_def)
qed

subsection \<open>The run as a whole\<close>

text \<open>
  Trimming one character: what is cut off is a run of that character, and what is left
  does not end (for \<open>rstrip\<close> and \<open>strip\<close>) or begin (for \<open>strip\<close>) with it.
\<close>

lemma rstrip_decompose:
  "\<exists>n. s = rstrip [c] s @ replicate n c"
proof -
  let ?P = "\<lambda>x. x \<in> set [c]"
  have "rev s = takeWhile ?P (rev s) @ dropWhile ?P (rev s)" by simp
  then have "s = rev (dropWhile ?P (rev s)) @ rev (takeWhile ?P (rev s))"
    by (metis rev_append rev_rev_ident)
  moreover have "\<forall>y\<in>set (rev (takeWhile ?P (rev s))). y = c"
    by (auto dest: set_takeWhileD)
  then have "replicate (length (rev (takeWhile ?P (rev s)))) c = rev (takeWhile ?P (rev s))"
    by (rule replicate_length_same)
  ultimately have "s = rstrip [c] s @ replicate (length (rev (takeWhile ?P (rev s)))) c"
    by (simp add: rstrip_def)
  then show ?thesis ..
qed

lemma rstrip_no_trailing: "rstrip [c] s \<noteq> t @ [c]"
proof
  assume "rstrip [c] s = t @ [c]"
  then have "dropWhile (\<lambda>x. x \<in> set [c]) (rev s) = c # rev t"
    by (metis rstrip_def rev_rev_ident rev_append rev.simps singleton_rev_conv append_Cons append_Nil)
  then show False
    using hd_dropWhile [of "\<lambda>x. x \<in> set [c]" "rev s"] by simp
qed

lemma lstrip_decompose: "\<exists>n. s = replicate n c @ lstrip [c] s"
proof -
  let ?P = "\<lambda>x. x \<in> set [c]"
  have "s = takeWhile ?P s @ dropWhile ?P s" by simp
  moreover have "\<forall>y\<in>set (takeWhile ?P s). y = c"
    by (auto dest: set_takeWhileD)
  then have "replicate (length (takeWhile ?P s)) c = takeWhile ?P s"
    by (rule replicate_length_same)
  ultimately have "s = replicate (length (takeWhile ?P s)) c @ lstrip [c] s"
    by (simp add: lstrip_def)
  then show ?thesis ..
qed

lemma lstrip_no_leading: "lstrip [c] s \<noteq> c # t"
proof
  assume "lstrip [c] s = c # t"
  then have "dropWhile (\<lambda>x. x \<in> set [c]) s = c # t"
    by (simp add: lstrip_def)
  then show False
    using hd_dropWhile [of "\<lambda>x. x \<in> set [c]" s] by simp
qed

lemma strip_decompose: "\<exists>m n. s = replicate m c @ strip [c] s @ replicate n c"
proof -
  obtain n where n: "s = rstrip [c] s @ replicate n c" using rstrip_decompose by blast
  obtain m where m: "rstrip [c] s = replicate m c @ lstrip [c] (rstrip [c] s)"
    using lstrip_decompose by blast
  have "s = replicate m c @ strip [c] s @ replicate n c"
    using n m by (metis strip_def append_assoc)
  then show ?thesis by blast
qed

lemma strip_no_leading: "strip [c] s \<noteq> c # t"
  by (simp add: strip_def lstrip_no_leading)

lemma dropWhile_no_trailing:
  "(\<And>t. xs \<noteq> t @ [c]) \<Longrightarrow> dropWhile P xs \<noteq> t @ [c]"
proof
  assume a: "\<And>t. xs \<noteq> t @ [c]" and b: "dropWhile P xs = t @ [c]"
  have "xs = takeWhile P xs @ dropWhile P xs" by simp
  then have "xs = (takeWhile P xs @ t) @ [c]" using b by simp
  with a show False by blast
qed

lemma strip_no_trailing: "strip [c] s \<noteq> t @ [c]"
  unfolding strip_def lstrip_def
  by (rule dropWhile_no_trailing) (rule rstrip_no_trailing)

text \<open>
  With the five required variables set, \<open>main\<close> does not raise: it runs the loop on
  the configuration read from the environment and closes with the notice.
\<close>

lemma main_run_eq:
  assumes "environ ''R2_BASE_URL'' = Some b" and "environ ''R2_PREFIX_PATH'' = Some p"
    and "environ ''YT_REFRESH_TOKEN'' = Some t" and "environ ''YT_CLIENT_ID'' = Some c"
    and "environ ''YT_CLIENT_SECRET'' = Some s"
  shows "main environ today svc w
      = Inr (finish (run_jobs svc (videos_insert_execute svc)
          \<lparr>cfg_today = today,
           cfg_base_url = rstrip ''/'' b,
           cfg_prefix = strip ''/'' p,
           cfg_title_prefix = getenv environ ''YT_TITLE_PREFIX'' ''Daily Video'',
           cfg_description = getenv environ ''YT_DESCRIPTION'' '''',
           cfg_category_id = getenv environ ''YT_CATEGORY_ID'' ''22'',
           cfg_privacy_status = getenv environ ''YT_PRIVACY_STATUS'' ''public'',
           cfg_made_for_kids = env_bool environ ''YT_MADE_FOR_KIDS'' False,
           cfg_altered_content = env_bool environ ''YT_ALTERED_CONTENT'' True,
           cfg_max_daily_uploads = env_int environ ''YT_MAX_DAILY_UPLOADS'' 1\<rparr> w))"
  using assms
  by (simp add: main_def environ_item_def build_youtube_client_def Let_def)

lemma main_run:
  assumes "environ ''R2_BASE_URL'' = Some b" and "environ ''R2_PREFIX_PATH'' = Some p"
    and "environ ''YT_REFRESH_TOKEN'' = Some t" and "environ ''YT_CLIENT_ID'' = Some c"
    and "environ ''YT_CLIENT_SECRET'' = Some s"
  shows "\<exists>cfg. cfg_today cfg = today \<and> cfg_base_url cfg = rstrip ''/'' b
      \<and> cfg_prefix cfg = strip ''/'' p
      \<and> cfg_max_daily_uploads cfg = env_int environ ''YT_MAX_DAILY_UPLOADS'' 1
      \<and> main environ today svc w
          = Inr (finish (run_jobs svc (videos_insert_execute svc) cfg w))"
  by (rule exI [of _ "\<lparr>cfg_today = today,
           cfg_base_url = rstrip ''/'' b,
           cfg_prefix = strip ''/'' p,
           cfg_title_prefix = getenv environ ''YT_TITLE_PREFIX'' ''Daily Video'',
           cfg_description = getenv environ ''YT_DESCRIPTION'' '''',
           cfg_category_id = getenv environ ''YT_CATEGORY_ID'' ''22'',
           cfg_privacy_status = getenv environ ''YT_PRIVACY_STATUS'' ''public'',
           cfg_made_for_kids = env_bool environ ''YT_MADE_FOR_KIDS'' False,
           cfg_altered_content = env_bool environ ''YT_ALTERED_CONTENT'' True,
           cfg_max_daily_uploads = env_int environ ''YT_MAX_DAILY_UPLOADS'' 1\<rparr>"])
     (simp add: main_run_eq [OF assms])

lemma http_gets_empty_world: "http_gets empty_world = []"
  by (simp add: empty_world_def)

lemma http_gets_finish: "http_gets (finish st) = http_gets (snd st)"
  by (simp add: finish_def)

lemma run_jobs_http_gets:
  "http_gets (snd (run_jobs svc youtube cfg w))
     = http_gets w @ map (video_url cfg) [1..cfg_max_daily_uploads cfg]"
  by (simp add: run_jobs_fold fold_iteration_http_gets)

lemma env_int_default: "env_int sample_environ ''YT_MAX_DAILY_UPLOADS'' 1 = 1"
  "env_int slashed_environ ''YT_MAX_DAILY_UPLOADS'' 1 = 1"
  by (simp_all add: env_int_def sample_environ_def slashed_environ_def str_int_def
        str_nat.simps digit_char_numeral
        py_int_def strip_def lstrip_def rstrip_def whitespace_def digits_value_def
        max_str_digits_def Let_def
        is_digit_def digit_val_def)

text \<open>
  Claim C3, as the code has it. The URL requested for an index is
  \<open>{base_url}/{prefix}/{filename}\<close>, where \<open>base_url\<close> is R2\_BASE\_URL without its
  trailing slashes (leading slashes stay) and \<open>prefix\<close> is R2\_PREFIX\_PATH without
  its leading and trailing slashes.
\<close>

theorem main_urls:
  assumes "environ ''R2_BASE_URL'' = Some b" and "environ ''R2_PREFIX_PATH'' = Some p"
    and "environ ''YT_REFRESH_TOKEN'' = Some t" and "environ ''YT_CLIENT_ID'' = Some c"
    and "environ ''YT_CLIENT_SECRET'' = Some s"
  shows "requested (main environ today svc w)
      = http_gets w @
        map (\<lambda>index. rstrip ''/'' b @ ''/'' @ strip ''/'' p @ ''/'' @
               (if env_int environ ''YT_MAX_DAILY_UPLOADS'' 1 = 1 then today @ ''.mp4''
                else today @ ''-'' @ str_int index @ ''.mp4''))
          [1..env_int environ ''YT_MAX_DAILY_UPLOADS'' 1]
    \<and> (\<exists>n. b = rstrip ''/'' b @ replicate n CHR ''/'')
    \<and> (\<forall>x. rstrip ''/'' b \<noteq> x @ ''/'')
    \<and> (\<exists>m n. p = replicate m CHR ''/'' @ strip ''/'' p @ replicate n CHR ''/'')
    \<and> (\<forall>x. strip ''/'' p \<noteq> x @ ''/'' \<and> strip ''/'' p \<noteq> ''/'' @ x)"
proof -
  obtain cfg where cfg: "cfg_today cfg = today" "cfg_base_url cfg = rstrip ''/'' b"
      "cfg_prefix cfg = strip ''/'' p"
      "cfg_max_daily_uploads cfg = env_int environ ''YT_MAX_DAILY_UPLOADS'' 1"
      "main environ today svc w = Inr (finish (run_jobs svc (videos_insert_execute svc) cfg w))"
    using main_run [OF assms] by blast
  have "video_url cfg = (\<lambda>index. rstrip ''/'' b @ ''/'' @ strip ''/'' p @ ''/'' @
               (if env_int environ ''YT_MAX_DAILY_UPLOADS'' 1 = 1 then today @ ''.mp4''
                else today @ ''-'' @ str_int index @ ''.mp4''))"
    by (rule ext) (simp add: video_url_def filename_def cfg)
  then have "requested (main environ today svc w)
      = http_gets w @
        map (\<lambda>index. rstrip ''/'' b @ ''/'' @ strip ''/'' p @ ''/'' @
               (if env_int environ ''YT_MAX_DAILY_UPLOADS'' 1 = 1 then today @ ''.mp4''
                else today @ ''-'' @ str_int index @ ''.mp4''))
          [1..env_int environ ''YT_MAX_DAILY_UPLOADS'' 1]"
    by (simp add: requested_def cfg http_gets_finish run_jobs_http_gets)
  moreover have "\<exists>n. b = rstrip ''/'' b @ replicate n CHR ''/''"
    by (rule rstrip_decompose)
  moreover have "\<forall>x. rstrip ''/'' b \<noteq> x @ ''/''"
    by (simp add: rstrip_no_trailing)
  moreover have "\<exists>m n. p = replicate m CHR ''/'' @ strip ''/'' p @ replicate n CHR ''/''"
    by (rule strip_decompose)
  moreover have "\<forall>x. strip ''/'' p \<noteq> x @ ''/'' \<and> strip ''/'' p \<noteq> ''/'' @ x"
    using strip_no_trailing [of "CHR ''/''" p] strip_no_leading [of "CHR ''/''" p] by simp
  ultimately show ?thesis by blast
qed

theorem main_urls_witness:
  "sample_environ ''R2_BASE_URL'' = Some ''https://cdn.example.com''
   \<and> sample_environ ''R2_PREFIX_PATH'' = Some ''videos''
   \<and> sample_environ ''YT_REFRESH_TOKEN'' = Some ''token''
   \<and> sample_environ ''YT_CLIENT_ID'' = Some ''id''
   \<and> sample_environ ''YT_CLIENT_SECRET'' = Some ''secret''
   \<and> requested (main sample_environ ''2024-03-01'' store_ok empty_world)
       = [''https://cdn.example.com/videos/2024-03-01.mp4'']"
proof -
  have e: "sample_environ ''R2_BASE_URL'' = Some ''https://cdn.example.com''"
    "sample_environ ''R2_PREFIX_PATH'' = Some ''videos''"
    "sample_environ ''YT_REFRESH_TOKEN'' = Some ''token''"
    "sample_environ ''YT_CLIENT_ID'' = Some ''id''"
    "sample_environ ''YT_CLIENT_SECRET'' = Some ''secret''"
    by (simp_all add: sample_environ_def)
  have "rstrip ''/'' ''https://cdn.example.com'' = ''https://cdn.example.com''"
    "strip ''/'' ''videos'' = ''videos''"
    by (simp_all add: strip_def lstrip_def rstrip_def)
  then show ?thesis
    using main_urls [OF e, of "''2024-03-01''" store_ok empty_world] e
    by (simp add: env_int_default http_gets_empty_world)
qed

text \<open>
  The claim as it was stated fails for a base URL that begins with a slash: the leading
  slashes of \<open>//cdn.example.com/\<close> are part of the URL requested.
\<close>

theorem main_urls_counterexample:
  "requested (main slashed_environ ''2024-03-01'' store_ok empty_world)
     = [''//cdn.example.com/videos/2024-03-01.mp4'']
   \<and> requested (main slashed_environ ''2024-03-01'' store_ok empty_world)
     \<noteq> [strip ''/'' ''//cdn.example.com/'' @ ''/'' @ strip ''/'' ''videos'' @ ''/''
         @ ''2024-03-01.mp4'']"
proof -
  have e: "slashed_environ ''R2_BASE_URL'' = Some ''//cdn.example.com/''"
    "slashed_environ ''R2_PREFIX_PATH'' = Some ''videos''"
    "slashed_environ ''YT_REFRESH_TOKEN'' = Some ''token''"
    "slashed_environ ''YT_CLIENT_ID'' = Some ''id''"
    "slashed_environ ''YT_CLIENT_SECRET'' = Some ''secret''"
    by (simp_all add: slashed_environ_def sample_environ_def)
  obtain cfg where cfg: "cfg_today cfg = ''2024-03-01''"
      "cfg_base_url cfg = rstrip ''/'' ''//cdn.example.com/''"
      "cfg_prefix cfg = strip ''/'' ''videos''"
      "cfg_max_daily_uploads cfg = env_int slashed_environ ''YT_MAX_DAILY_UPLOADS'' 1"
      "main slashed_environ ''2024-03-01'' store_ok empty_world
         = Inr (finish (run_jobs store_ok (videos_insert_execute store_ok) cfg empty_world))"
    using main_run [OF e] by blast
  have "requested (main slashed_environ ''2024-03-01'' store_ok empty_world)
      = [''//cdn.example.com/videos/2024-03-01.mp4'']"
    by (simp add: requested_def cfg http_gets_finish run_jobs_http_gets env_int_default
          video_url_def filename_def http_gets_empty_world strip_def lstrip_def rstrip_def)
  then show ?thesis
    by (simp add: strip_def lstrip_def rstrip_def)
qed

lemma run_jobs_inserts:
  "\<exists>bs. inserts (snd (run_jobs svc youtube cfg w)) = inserts w @ bs
        \<and> (\<forall>bm\<in>set bs. \<exists>i\<in>{1..cfg_max_daily_uploads cfg}.
               snippet_title (fst bm) = title cfg i)"
  using fold_iteration_inserts [of svc youtube cfg "[1..cfg_max_daily_uploads cfg]" "(False, w)"]
  by (simp add: run_jobs_fold)

text \<open>
  Claim C5. With \<open>max_daily_uploads = 1\<close> the one filename derived is
  \<open>{date}.mp4\<close>, its title is the prefix and the date with no part suffix, and that
  file's URL is the one requested. With \<open>max_daily_uploads = N > 1\<close> exactly N filenames
  are derived, the i-th (for i from 1 to N) being \<open>{date}-{i}.mp4\<close> with a title ending
  in \<open>Part {i}\<close>, and their URLs are the ones requested, in this order. Every insert
  request of the run carries the title of one of the indices.
\<close>

theorem derived_jobs:
  "(cfg_max_daily_uploads cfg = 1 \<longrightarrow>
       map (filename cfg) [1..cfg_max_daily_uploads cfg] = [cfg_today cfg @ ''.mp4'']
     \<and> map (title cfg) [1..cfg_max_daily_uploads cfg]
         = [cfg_title_prefix cfg @ '' - '' @ cfg_today cfg]
     \<and> http_gets (snd (run_jobs svc youtube cfg w))
         = http_gets w @ [cfg_base_url cfg @ ''/'' @ cfg_prefix cfg @ ''/''
                          @ cfg_today cfg @ ''.mp4''])
   \<and> (1 < cfg_max_daily_uploads cfg \<longrightarrow>
       length (map (filename cfg) [1..cfg_max_daily_uploads cfg])
         = nat (cfg_max_daily_uploads cfg)
     \<and> (\<forall>i\<in>{1..cfg_max_daily_uploads cfg}.
           map (filename cfg) [1..cfg_max_daily_uploads cfg] ! nat (i - 1)
             = cfg_today cfg @ ''-'' @ str_int i @ ''.mp4''
         \<and> map (title cfg) [1..cfg_max_daily_uploads cfg] ! nat (i - 1)
             = cfg_title_prefix cfg @ '' - '' @ cfg_today cfg @ '' Part '' @ str_int i)
     \<and> http_gets (snd (run_jobs svc youtube cfg w))
         = http_gets w @
           map (\<lambda>i. cfg_base_url cfg @ ''/'' @ cfg_prefix cfg @ ''/''
                     @ cfg_today cfg @ ''-'' @ str_int i @ ''.mp4'')
             [1..cfg_max_daily_uploads cfg])
   \<and> (\<exists>bs. inserts (snd (run_jobs svc youtube cfg w)) = inserts w @ bs
          \<and> (\<forall>bm\<in>set bs. \<exists>i\<in>{1..cfg_max_daily_uploads cfg}.
                 snippet_title (fst bm) = title cfg i))"
proof (intro conjI impI)
  assume one: "cfg_max_daily_uploads cfg = 1"
  show "map (filename cfg) [1..cfg_max_daily_uploads cfg] = [cfg_today cfg @ ''.mp4'']"
    using one by (simp add: filename_def)
  show "map (title cfg) [1..cfg_max_daily_uploads cfg]
         = [cfg_title_prefix cfg @ '' - '' @ cfg_today cfg]"
    using one by (simp add: title_def)
  show "http_gets (snd (run_jobs svc youtube cfg w))
         = http_gets w @ [cfg_base_url cfg @ ''/'' @ cfg_prefix cfg @ ''/''
                          @ cfg_today cfg @ ''.mp4'']"
    using one by (simp add: run_jobs_http_gets video_url_def filename_def)
next
  assume many: "1 < cfg_max_daily_uploads cfg"
  show "length (map (filename cfg) [1..cfg_max_daily_uploads cfg])
         = nat (cfg_max_daily_uploads cfg)"
    using many by simp
  show "\<forall>i\<in>{1..cfg_max_daily_uploads cfg}.
           map (filename cfg) [1..cfg_max_daily_uploads cfg] ! nat (i - 1)
             = cfg_today cfg @ ''-'' @ str_int i @ ''.mp4''
         \<and> map (title cfg) [1..cfg_max_daily_uploads cfg] ! nat (i - 1)
             = cfg_title_prefix cfg @ '' - '' @ cfg_today cfg @ '' Part '' @ str_int i"
  proof
    fix i assume i: "i \<in> {1..cfg_max_daily_uploads cfg}"
    then have n: "nat (i - 1) < length [1..cfg_max_daily_uploads cfg]" by auto
    have "[1..cfg_max_daily_uploads cfg] ! nat (i - 1) = 1 + int (nat (i - 1))"
      using i by (intro nth_upto) auto
    then have "[1..cfg_max_daily_uploads cfg] ! nat (i - 1) = i" using i by auto
    with n many show "map (filename cfg) [1..cfg_max_daily_uploads cfg] ! nat (i - 1)
             = cfg_today cfg @ ''-'' @ str_int i @ ''.mp4''
         \<and> map (title cfg) [1..cfg_max_daily_uploads cfg] ! nat (i - 1)
             = cfg_title_prefix cfg @ '' - '' @ cfg_today cfg @ '' Part '' @ str_int i"
      by (simp add: filename_def title_def)
  qed
  have "video_url cfg = (\<lambda>i. cfg_base_url cfg @ ''/'' @ cfg_prefix cfg @ ''/''
                     @ cfg_today cfg @ ''-'' @ str_int i @ ''.mp4'')"
    using many by (intro ext) (simp add: video_url_def filename_def)
  then show "http_gets (snd (run_jobs svc youtube cfg w))
         = http_gets w @
           map (\<lambda>i. cfg_base_url cfg @ ''/'' @ cfg_prefix cfg @ ''/''
                     @ cfg_today cfg @ ''-'' @ str_int i @ ''.mp4'')
             [1..cfg_max_daily_uploads cfg]"
    by (simp add: run_jobs_http_gets)
next
  show "\<exists>bs. inserts (snd (run_jobs svc youtube cfg w)) = inserts w @ bs
          \<and> (\<forall>bm\<in>set bs. \<exists>i\<in>{1..cfg_max_daily_uploads cfg}.
                 snippet_title (fst bm) = title cfg i)"
    by (rule run_jobs_inserts)
qed

theorem derived_jobs_witness:
  "cfg_max_daily_uploads (sample_config\<lparr>cfg_max_daily_uploads := 1\<rparr>) = 1
   \<and> http_gets (snd (run_jobs store_ok platform_ok
                       (sample_config\<lparr>cfg_max_daily_uploads := 1\<rparr>) empty_world))
       = [''https://cdn.example.com/videos/2024-03-01.mp4'']
   \<and> map (title (sample_config\<lparr>cfg_max_daily_uploads := 1\<rparr>)) [1..1]
       = [''Daily Video - 2024-03-01'']
   \<and> 1 < cfg_max_daily_uploads sample_config
   \<and> map (filename sample_config) [1..2] = [''2024-03-01-1.mp4'', ''2024-03-01-2.mp4'']
   \<and> map (title sample_config) [1..2]
       = [''Daily Video - 2024-03-01 Part 1'', ''Daily Video - 2024-03-01 Part 2'']
   \<and> http_gets (snd (run_jobs store_ok platform_ok sample_config empty_world))
       = [''https://cdn.example.com/videos/2024-03-01-1.mp4'',
          ''https://cdn.example.com/videos/2024-03-01-2.mp4'']"
proof -
  let ?c1 = "sample_config\<lparr>cfg_max_daily_uploads := 1\<rparr>"
  have one: "cfg_max_daily_uploads ?c1 = 1" by simp
  have many: "1 < cfg_max_daily_uploads sample_config" by (simp add: sample_config_def)
  have two: "[1..cfg_max_daily_uploads sample_config] = [1, 2]"
    by (simp add: sample_config_def upto_rec1)
  have s: "str_int 1 = ''1''" "str_int 2 = ''2''"
    by (simp_all add: str_int_def str_nat.simps digit_char_numeral)
  have a: "http_gets (snd (run_jobs store_ok platform_ok ?c1 empty_world))
       = [''https://cdn.example.com/videos/2024-03-01.mp4'']"
    "map (title ?c1) [1..1] = [''Daily Video - 2024-03-01'']"
    using derived_jobs [of ?c1 store_ok platform_ok empty_world] one
    by (simp_all add: sample_config_def http_gets_empty_world)
  have b: "http_gets (snd (run_jobs store_ok platform_ok sample_config empty_world))
       = [''https://cdn.example.com/videos/2024-03-01-1.mp4'',
          ''https://cdn.example.com/videos/2024-03-01-2.mp4'']"
    using derived_jobs [of sample_config store_ok platform_ok empty_world] many
    by (simp add: two s http_gets_empty_world) (simp add: sample_config_def)
  have c: "map (filename sample_config) [1..2] = [''2024-03-01-1.mp4'', ''2024-03-01-2.mp4'']"
    "map (title sample_config) [1..2]
       = [''Daily Video - 2024-03-01 Part 1'', ''Daily Video - 2024-03-01 Part 2'']"
    by (simp_all add: upto_rec1 sample_names)
  show ?thesis using one many a b c by simp
qed

lemma run_jobs_flag:
  "fst (run_jobs svc youtube cfg w)
     = (\<exists>i\<in>{1..cfg_max_daily_uploads cfg}. upload_completes svc youtube cfg i)"
  by (simp add: run_jobs_fold fold_iteration_flag)

lemma run_jobs_stdout:
  "\<exists>ls. stdout (snd (run_jobs svc youtube cfg w)) = stdout w @ ls \<and> notice \<notin> set ls"
  using fold_iteration_stdout [of svc youtube cfg "[1..cfg_max_daily_uploads cfg]" "(False, w)"]
  by (simp add: run_jobs_fold)

lemma env_int_idle: "env_int idle_environ ''YT_MAX_DAILY_UPLOADS'' 1 = 0"
  by (simp add: env_int_def idle_environ_def py_int_def strip_def lstrip_def rstrip_def
        whitespace_def digits_value_def is_digit_def digit_val_def max_str_digits_def Let_def)

text \<open>
  Claim C8. What a run prints comes after what was printed before it. Among the lines
  of the run, the notice \<open>No files were uploaded today (nothing found in R2).\<close> stands
  exactly once when no index from 1 to \<open>max_daily_uploads\<close> completed an upload (each
  ended in not found or in a failure), and not at all when some index completed one;
  \<open>uploaded_any\<close> is true after the loop exactly in the second case.
\<close>

theorem nothing_uploaded_notice:
  "take (length (stdout w)) (stdout (finish (run_jobs svc youtube cfg w))) = stdout w
   \<and> count_list (drop (length (stdout w)) (stdout (finish (run_jobs svc youtube cfg w)))) notice
       = (if \<exists>i\<in>{1..cfg_max_daily_uploads cfg}. upload_completes svc youtube cfg i
          then 0 else 1)
   \<and> fst (run_jobs svc youtube cfg w)
       = (\<exists>i\<in>{1..cfg_max_daily_uploads cfg}. upload_completes svc youtube cfg i)"
proof -
  obtain ls where ls: "stdout (snd (run_jobs svc youtube cfg w)) = stdout w @ ls"
    and fresh: "notice \<notin> set ls"
    using run_jobs_stdout by blast
  have zero: "count_list ls notice = 0"
    using fresh by (simp add: count_list_0_iff)
  show ?thesis
  proof (cases "fst (run_jobs svc youtube cfg w)")
    case True
    then have "stdout (finish (run_jobs svc youtube cfg w)) = stdout w @ ls"
      by (simp add: finish_def ls)
    with True zero show ?thesis
      by (simp add: run_jobs_flag)
  next
    case False
    then have "stdout (finish (run_jobs svc youtube cfg w)) = stdout w @ (ls @ [notice])"
      by (simp add: finish_def ls)
    with False zero show ?thesis
      by (simp add: run_jobs_flag)
  qed
qed

theorem nothing_uploaded_notice_witness:
  "count_list (drop (length (stdout empty_world))
       (stdout (finish (run_jobs store_ok platform_ok sample_config empty_world)))) notice = 0
   \<and> count_list (drop (length (stdout empty_world))
       (stdout (finish (run_jobs store_missing platform_ok sample_config empty_world)))) notice = 1
   \<and> count_list (drop (length (stdout empty_world))
       (stdout (finish (run_jobs store_ok platform_down sample_config empty_world)))) notice = 1"
proof -
  have ok: "upload_completes store_ok platform_ok sample_config 1"
    by (simp add: upload_completes_def store_ok_def ok_response_def platform_ok_def)
  have "(1::int) \<in> {1..cfg_max_daily_uploads sample_config}"
    by (simp add: sample_config_def)
  with ok have a: "\<exists>i\<in>{1..cfg_max_daily_uploads sample_config}.
      upload_completes store_ok platform_ok sample_config i"
    by blast
  have b: "\<not> (\<exists>i\<in>{1..cfg_max_daily_uploads sample_config}.
      upload_completes store_missing platform_ok sample_config i)"
    by (simp add: upload_completes_def store_missing_def missing_response_def)
  have c: "\<not> (\<exists>i\<in>{1..cfg_max_daily_uploads sample_config}.
      upload_completes store_ok platform_down sample_config i)"
    by (simp add: upload_completes_def store_ok_def ok_response_def platform_down_def)
  show ?thesis
    using nothing_uploaded_notice [of empty_world store_ok platform_ok sample_config]
      nothing_uploaded_notice [of empty_world store_missing platform_ok sample_config]
      nothing_uploaded_notice [of empty_world store_ok platform_down sample_config]
      a b c
    by simp
qed

text \<open>
  Claim C10. When \<open>max_daily_uploads\<close> is zero or negative, the loop and the closing
  step leave the world as it was but for the notice, printed once: no URL is requested
  and no insert request is made. So does \<open>main\<close>, once the required variables are set,
  when YT\_MAX\_DAILY\_UPLOADS reads as zero or less.
\<close>

theorem no_jobs_when_nonpositive:
  "(cfg_max_daily_uploads cfg \<le> 0 \<longrightarrow>
      finish (run_jobs svc youtube cfg w) = w\<lparr>stdout := stdout w @ [notice]\<rparr>)
   \<and> (environ ''R2_BASE_URL'' \<noteq> None \<and> environ ''R2_PREFIX_PATH'' \<noteq> None
      \<and> environ ''YT_REFRESH_TOKEN'' \<noteq> None \<and> environ ''YT_CLIENT_ID'' \<noteq> None
      \<and> environ ''YT_CLIENT_SECRET'' \<noteq> None
      \<and> env_int environ ''YT_MAX_DAILY_UPLOADS'' 1 \<le> 0 \<longrightarrow>
      main environ today svc w = Inr (w\<lparr>stdout := stdout w @ [notice]\<rparr>))"
proof (intro conjI impI)
  assume "cfg_max_daily_uploads cfg \<le> 0"
  then have "[1..cfg_max_daily_uploads cfg] = []" by simp
  then have "run_jobs svc youtube cfg w = (False, w)"
    by (simp add: run_jobs_fold)
  then show "finish (run_jobs svc youtube cfg w) = w\<lparr>stdout := stdout w @ [notice]\<rparr>"
    by (simp add: finish_def print_def)
next
  assume a: "environ ''R2_BASE_URL'' \<noteq> None \<and> environ ''R2_PREFIX_PATH'' \<noteq> None
      \<and> environ ''YT_REFRESH_TOKEN'' \<noteq> None \<and> environ ''YT_CLIENT_ID'' \<noteq> None
      \<and> environ ''YT_CLIENT_SECRET'' \<noteq> None
      \<and> env_int environ ''YT_MAX_DAILY_UPLOADS'' 1 \<le> 0"
  then obtain b p t c s where e: "environ ''R2_BASE_URL'' = Some b"
      "environ ''R2_PREFIX_PATH'' = Some p" "environ ''YT_REFRESH_TOKEN'' = Some t"
      "environ ''YT_CLIENT_ID'' = Some c" "environ ''YT_CLIENT_SECRET'' = Some s"
    by auto
  obtain cfg' where cfg: "cfg_max_daily_uploads cfg' = env_int environ ''YT_MAX_DAILY_UPLOADS'' 1"
      "main environ today svc w = Inr (finish (run_jobs svc (videos_insert_execute svc) cfg' w))"
    using main_run [OF e] by blast
  have "[1..cfg_max_daily_uploads cfg'] = []"
    using a cfg(1) by simp
  then have "run_jobs svc (videos_insert_execute svc) cfg' w = (False, w)"
    by (simp add: run_jobs_fold)
  then show "main environ today svc w = Inr (w\<lparr>stdout := stdout w @ [notice]\<rparr>)"
    by (simp add: cfg(2) finish_def print_def)
qed

theorem no_jobs_when_nonpositive_witness:
  "idle_environ ''YT_MAX_DAILY_UPLOADS'' = Some ''0''
   \<and> env_int idle_environ ''YT_MAX_DAILY_UPLOADS'' 1 = 0
   \<and> main idle_environ ''2024-03-01'' store_ok empty_world
       = Inr \<lparr>stdout = [''No files were uploaded today (nothing found in R2).''],
              files = [], http_gets = [], inserts = []\<rparr>
   \<and> finish (run_jobs store_ok platform_ok (sample_config\<lparr>cfg_max_daily_uploads := - 3\<rparr>)
         empty_world)
       = \<lparr>stdout = [''No files were uploaded today (nothing found in R2).''],
          files = [], http_gets = [], inserts = []\<rparr>"
proof -
  have e: "idle_environ ''R2_BASE_URL'' \<noteq> None \<and> idle_environ ''R2_PREFIX_PATH'' \<noteq> None
      \<and> idle_environ ''YT_REFRESH_TOKEN'' \<noteq> None \<and> idle_environ ''YT_CLIENT_ID'' \<noteq> None
      \<and> idle_environ ''YT_CLIENT_SECRET'' \<noteq> None
      \<and> env_int idle_environ ''YT_MAX_DAILY_UPLOADS'' 1 \<le> 0"
    by (simp add: env_int_idle) (simp add: idle_environ_def sample_environ_def)
  have v: "idle_environ ''YT_MAX_DAILY_UPLOADS'' = Some ''0''"
    by (simp add: idle_environ_def)
  have n: "cfg_max_daily_uploads (sample_config\<lparr>cfg_max_daily_uploads := - 3\<rparr>) \<le> 0"
    by simp
  show ?thesis
    using no_jobs_when_nonpositive [of "sample_config\<lparr>cfg_max_daily_uploads := - 3\<rparr>"
        store_ok platform_ok empty_world idle_environ "''2024-03-01''"] e v n
    by (simp add: env_int_idle empty_world_def notice_def)
qed

end
